theory Spec2Isabelle
  imports Complex_Main "HOL-Library.Sublist"
begin

section \<open>Python values shared by the retrieval engine and the ingestion script\<close>

text \<open>
  Metadata dictionaries map string keys to string values, which is what the ingestion script
  stores (\<open>source\<close>, \<open>site\<close>, \<open>type\<close>, \<open>date\<close>).
\<close>

type_synonym metadata = "string \<rightharpoonup> string"

text \<open>
  Exceptions are values. \<open>IndexError\<close> is Python's own, raised by \<open>xs[0]\<close> on an empty
  list; \<open>LibraryError\<close> stands for any exception raised inside an external library
  (ChromaDB, the embedding function, the document loader), with its message;
  \<open>ConfigurationError\<close> is the rejection of a chunk size or overlap that is out of range.
\<close>

datatype error = IndexError | LibraryError string | ConfigurationError

text \<open>\<open>d.get(k, default)\<close>\<close>

definition dict_get :: "metadata \<Rightarrow> string \<Rightarrow> string \<Rightarrow> string" where
  "dict_get d k dflt = (case d k of None \<Rightarrow> dflt | Some v \<Rightarrow> v)"

text \<open>\<open>xs[0]\<close>\<close>

fun first :: "'a list \<Rightarrow> error + 'a" where
  "first [] = Inl IndexError"
| "first (x # xs) = Inr x"

text \<open>
  A Python float is an IEEE 754 binary64 number ("double"). A finite double is carried as the
  real number it denotes, so equality of floats is equality of reals. Every arithmetic
  operation computes the exact result and rounds it to the nearest double, ties going to the
  even significand; \<open>fl\<close> is that rounding. A real that is not a double stands for the double
  nearest to it, the way a decimal literal does: every operation reads its operands through
  \<open>fl\<close>, which leaves a double unchanged. Infinities and NaN are not modelled: the model is
  the code's arithmetic as long as no result exceeds the largest double.
\<close>

text \<open>Rounding to the nearest integer, an exact tie going to the even neighbour.\<close>

definition round_half_even :: "real \<Rightarrow> int" where
  "round_half_even x =
     (let f = \<lfloor>x\<rfloor>; d = x - of_int f
      in if d < 1 / 2 then f
         else if 1 / 2 < d then f + 1
         else if even f then f else f + 1)"

text \<open>The number of binary digits of a natural number.\<close>

fun bits :: "nat \<Rightarrow> nat" where
  "bits n = (if n = 0 then 0 else Suc (bits (n div 2)))"

declare bits.simps [simp del]

text \<open>The binary exponent of a non-zero real: \<open>2 ^ exponent x \<le> \<bar>x\<bar> < 2 ^ (exponent x + 1)\<close>.\<close>

definition exponent :: "real \<Rightarrow> int" where
  "exponent x =
     (let a = \<bar>x\<bar>
      in if 1 \<le> a then int (bits (nat \<lfloor>a\<rfloor>)) - 1
         else - int (bits (nat (\<lceil>1 / a\<rceil> - 1))))"

definition pow2 :: "int \<Rightarrow> real" where
  "pow2 k = (if 0 \<le> k then 2 ^ nat k else 1 / 2 ^ nat (- k))"

text \<open>
  The nearest double: 53 significant bits, the last of them worth at least \<open>2 ^ -1074\<close>
  (subnormal numbers).
\<close>

definition fl :: "real \<Rightarrow> real" where
  "fl x =
     (if x = 0 then 0
      else let q = max (exponent x - 52) (- 1074)
           in of_int (round_half_even (x / pow2 q)) * pow2 q)"

text \<open>\<open>x + y\<close>, \<open>x - y\<close> and \<open>x / y\<close> on floats (\<open>y\<close> not zero).\<close>

definition fadd :: "real \<Rightarrow> real \<Rightarrow> real" where
  "fadd x y = fl (fl x + fl y)"

definition fsub :: "real \<Rightarrow> real \<Rightarrow> real" where
  "fsub x y = fl (fl x - fl y)"

definition fdiv :: "real \<Rightarrow> real \<Rightarrow> real" where
  "fdiv x y = fl (fl x / fl y)"

text \<open>
  \<open>round(x, ndigits)\<close> on a float, \<open>ndigits\<close> not negative: the exact value of \<open>x\<close> is rounded
  to \<open>ndigits\<close> decimals, an exact tie going to the even neighbour, and the decimal result is
  converted to the nearest double.
\<close>

definition py_round :: "real \<Rightarrow> nat \<Rightarrow> real" where
  "py_round x ndigits = fl (of_int (round_half_even (fl x * 10 ^ ndigits)) / 10 ^ ndigits)"

text \<open>
  \<open>sum(xs)\<close> on floats: additions from left to right starting from 0, as CPython does up to
  version 3.11 (from 3.12 on it carries a compensation term along).
\<close>

definition py_sum :: "real list \<Rightarrow> real" where
  "py_sum xs = foldl fadd 0 xs"

text \<open>\<open>sep.join(parts)\<close>\<close>

fun join :: "string \<Rightarrow> string list \<Rightarrow> string" where
  "join sep [] = []"
| "join sep [p] = p"
| "join sep (p # p' # ps) = p @ sep @ join sep (p' # ps)"

section \<open>The retrieval engine (rag.py)\<close>

subsection \<open>Data\<close>

text \<open>
  What \<open>collection.query\<close> returns with \<open>include=["documents", "metadatas", "distances"]\<close>:
  one inner list per query text.
\<close>

record query_results =
  documents :: "string list list"
  metadatas :: "metadata list list"
  distances :: "real list list"

text \<open>
  The ChromaDB collection together with its embedding function is external: it is a
  parameter, \<open>collection query_texts n_results\<close>, and it may raise.
\<close>

type_synonym collection = "string list \<Rightarrow> int \<Rightarrow> error + query_results"

text \<open>One formatted search result (the dictionary built in \<open>search\<close>).\<close>

record hit =
  hit_id :: nat
  content :: string
  metadata :: metadata
  similarity_score :: real
  distance :: real

text \<open>One entry of the \<open>sources\<close> list.\<close>

record source_info =
  site :: string
  source :: string
  score :: real

text \<open>
  The dictionary returned by \<open>generate_response\<close> and \<open>query\<close>. The key
  \<open>context_results\<close> is not always present: \<open>None\<close> is its absence.
\<close>

record response =
  answer :: string
  sources :: "source_info list"
  confidence :: real
  context_results :: "nat option"

subsection \<open>search\<close>

text \<open>The dictionary appended for the \<open>i\<close>-th triple of the zip.\<close>

definition format_hit :: "nat \<Rightarrow> string \<times> metadata \<times> real \<Rightarrow> hit" where
  "format_hit i t =
     (case t of (doc, meta, raw) \<Rightarrow>
        let similarity = fsub 1 raw
        in \<lparr>hit_id = i, content = doc, metadata = meta,
            similarity_score = py_round similarity 3,
            distance = py_round raw 3\<rparr>)"

text \<open>
  The loop over \<open>enumerate(zip(documents[0], metadatas[0], distances[0]))\<close>, appending one
  dictionary per triple; \<open>i\<close> is the running index.
\<close>

fun format_results :: "nat \<Rightarrow> (string \<times> metadata \<times> real) list \<Rightarrow> hit list \<Rightarrow> hit list" where
  "format_results i [] formatted_results = formatted_results"
| "format_results i (t # rest) formatted_results =
     format_results (Suc i) rest (formatted_results @ [format_hit i t])"

definition search :: "collection \<Rightarrow> string \<Rightarrow> int \<Rightarrow> error + hit list" where
  "search collection q k =
     (case collection [q] k of
        Inl e \<Rightarrow> Inl e
      | Inr results \<Rightarrow>
          if documents results \<noteq> [] then
            (case first (documents results) of
               Inl e \<Rightarrow> Inl e
             | Inr docs \<Rightarrow>
                 (case first (metadatas results) of
                    Inl e \<Rightarrow> Inl e
                  | Inr metas \<Rightarrow>
                      (case first (distances results) of
                         Inl e \<Rightarrow> Inl e
                       | Inr dists \<Rightarrow>
                           Inr (format_results 0 (zip docs (zip metas dists)) []))))
          else Inr [])"

subsection \<open>generate_response\<close>

definition source_of :: "hit \<Rightarrow> source_info" where
  "source_of result =
     (let meta = metadata result
      in \<lparr>site = dict_get meta ''site'' ''Inconnu'',
          source = dict_get meta ''source'' ''Document'',
          score = similarity_score result\<rparr>)"

text \<open>
  The loop over the hits: the state is the pair of the two lists it appends to,
  \<open>context_parts\<close> and \<open>sources\<close>.
\<close>

fun collect :: "hit list \<Rightarrow> string list \<times> source_info list \<Rightarrow> string list \<times> source_info list" where
  "collect [] acc = acc"
| "collect (result # rest) (context_parts, srcs) =
     collect rest
       (context_parts @ [content result],
        if source_of result \<notin> set srcs then srcs @ [source_of result] else srcs)"

definition no_context_answer :: string where
  "no_context_answer =
     ''Je ne dispose pas d'informations fiables sur ce sujet dans ma base de connaissances.''"

text \<open>\<open>"D'apr\`es les informations disponibles :\n\n"\<close>, the accented letter in UTF-8.\<close>

definition answer_prefix :: string where
  "answer_prefix =
     ''D'apr'' @ [CHR 0xC3, CHR 0xA8] @ ''s les informations disponibles :'' @ [CHR 0x0A, CHR 0x0A]"

definition generate_response :: "string \<Rightarrow> hit list \<Rightarrow> response" where
  "generate_response q results =
     (if results = [] then
        \<lparr>answer = no_context_answer, sources = [], confidence = 0, context_results = None\<rparr>
      else
        (case collect results ([], []) of
           (context_parts, srcs) \<Rightarrow>
             let context = join [CHR 0x0A, CHR 0x0A] context_parts;
                 answer_text = answer_prefix @ context;
                 conf = fdiv (py_sum (map similarity_score results)) (real (length results))
             in \<lparr>answer = answer_text, sources = srcs, confidence = py_round conf 3,
                 context_results = Some (length results)\<rparr>))"

subsection \<open>query\<close>

text \<open>\<open>"Aucune information pertinente trouv\'ee."\<close>\<close>

definition no_match_answer :: string where
  "no_match_answer = ''Aucune information pertinente trouv'' @ [CHR 0xC3, CHR 0xA9] @ ''e.''"

definition no_match_response :: response where
  "no_match_response =
     \<lparr>answer = no_match_answer, sources = [], confidence = 0, context_results = Some 0\<rparr>"

definition query :: "collection \<Rightarrow> string \<Rightarrow> int \<Rightarrow> error + response" where
  "query collection question k =
     (case search collection question k of
        Inl e \<Rightarrow> Inl e
      | Inr results \<Rightarrow>
          Inr (if results \<noteq> [] then generate_response question results
               else no_match_response))"

subsection \<open>The caller of query (chatbot_page in app.py)\<close>

text \<open>
  What the page shows for a question: the results, the "no information" warning, or an
  error message. \<open>rag_engine\<close> is \<open>None\<close> when the engine could not be initialised.
  Nothing is shown for an empty question.
\<close>

datatype display =
  ShowResults response
| WarnNoInformation
| ShowSearchError error
| ShowNotInitialised

definition chatbot_search :: "collection option \<Rightarrow> string \<Rightarrow> display option" where
  "chatbot_search rag_engine question =
     (if question \<noteq> [] then
        Some (case rag_engine of
                None \<Rightarrow> ShowNotInitialised
              | Some collection \<Rightarrow>
                  (case query collection question 3 of
                     Inl e \<Rightarrow> ShowSearchError e
                   | Inr result \<Rightarrow>
                       if 0 < confidence result then ShowResults result
                       else WarnNoInformation))
      else None)"

section \<open>The ingestion script (ingest.py)\<close>

subsection \<open>Python string and path functions\<close>

text \<open>
  Characters are bytes; the case functions act on ASCII letters, which is all the fixed
  file names contain. An ASCII letter changes case by its bit of value 32.
\<close>

definition upper_char :: "char \<Rightarrow> char" where
  "upper_char c =
     (case c of
        Char b0 b1 b2 b3 b4 b5 b6 b7 \<Rightarrow>
          if 97 \<le> (of_char c :: nat) \<and> (of_char c :: nat) \<le> 122
          then Char b0 b1 b2 b3 b4 False b6 b7 else c)"

definition lower_char :: "char \<Rightarrow> char" where
  "lower_char c =
     (case c of
        Char b0 b1 b2 b3 b4 b5 b6 b7 \<Rightarrow>
          if 65 \<le> (of_char c :: nat) \<and> (of_char c :: nat) \<le> 90
          then Char b0 b1 b2 b3 b4 True b6 b7 else c)"

text \<open>\<open>s.capitalize()\<close>\<close>

definition capitalize :: "string \<Rightarrow> string" where
  "capitalize s = (case s of [] \<Rightarrow> [] | c # cs \<Rightarrow> upper_char c # map lower_char cs)"

text \<open>
  \<open>s.replace(old, new)\<close> for a non-empty \<open>old\<close>: the occurrences are replaced from left to
  right without overlap. \<open>skip\<close> counts the characters of a matched occurrence still to be
  dropped.
\<close>

fun replace_from :: "string \<Rightarrow> string \<Rightarrow> nat \<Rightarrow> string \<Rightarrow> string" where
  "replace_from old new skip [] = []"
| "replace_from old new (Suc skip) (c # cs) = replace_from old new skip cs"
| "replace_from old new 0 (c # cs) =
     (if prefix old (c # cs) then new @ replace_from old new (length old - 1) cs
      else c # replace_from old new 0 cs)"

definition py_replace :: "string \<Rightarrow> string \<Rightarrow> string \<Rightarrow> string" where
  "py_replace s old new = replace_from old new 0 s"

text \<open>\<open>os.path.join(a, b)\<close> on a POSIX system.\<close>

definition path_join :: "string \<Rightarrow> string \<Rightarrow> string" where
  "path_join a b =
     (case b of
        [] \<Rightarrow> (if a = [] \<or> last a = CHR ''/'' then a else a @ ''/'')
      | c # _ \<Rightarrow>
          if c = CHR ''/'' then b
          else if a = [] \<or> last a = CHR ''/'' then a @ b
          else a @ ''/'' @ b)"

subsection \<open>Data\<close>

text \<open>A LangChain document: its text and its metadata dictionary.\<close>

record document =
  page_content :: string
  doc_metadata :: metadata

text \<open>The lines the script prints, one constructor per \<open>print\<close>.\<close>

datatype message =
  Banner
| LoadingDocuments
| Loaded string nat
| LoadFailed string error
| NoDocumentFound
| Chunking
| ChunksCreated nat
| CreatingStore
| StoreCreated string nat
| TestingSearch
| TestQuery string
| TestResult nat string
| IngestionSucceeded

text \<open>
  The file system and the libraries are external, so they are parameters:
  \<^item> \<open>path_exists\<close> is \<open>os.path.exists\<close>;
  \<^item> \<open>loader path\<close> is \<open>TextLoader(path, encoding="utf-8").load()\<close>, which may raise;
  \<^item> \<open>splitter chunk_size chunk_overlap documents\<close> is the
    \<open>RecursiveCharacterTextSplitter\<close> with the separators of \<open>create_chunks\<close>, applied by
    \<open>split_documents\<close>;
  \<^item> \<open>chroma chunks directory\<close> is everything \<open>create_vector_store\<close> asks of ChromaDB:
    embedding and storing the chunks, persisting, reopening the collection and counting
    it; it returns the store and that count;
  \<^item> \<open>similarity_search store text k\<close> is the store's method of that name.
\<close>

type_synonym file_test = "string \<Rightarrow> bool"
type_synonym text_loader = "string \<Rightarrow> error + document list"
type_synonym text_splitter = "int \<Rightarrow> int \<Rightarrow> document list \<Rightarrow> error + document list"
type_synonym 'vs chroma = "document list \<Rightarrow> string \<Rightarrow> error + 'vs \<times> nat"
type_synonym 'vs searcher = "'vs \<Rightarrow> string \<Rightarrow> int \<Rightarrow> error + document list"

text \<open>How a run of \<open>main\<close> ends.\<close>

datatype 'vs outcome =
  NothingToIndex
| Raised error
| Completed 'vs

subsection \<open>load_documents\<close>

definition files :: "string list" where
  "files = [''carthage.txt'', ''dougga.txt'', ''el_jem.txt'', ''kerkouane.txt'', ''sbeitla.txt'']"

text \<open>\<open>doc.metadata.update({...})\<close> for a document loaded from \<open>file\<close>.\<close>

definition add_metadata :: "string \<Rightarrow> document \<Rightarrow> document" where
  "add_metadata file doc =
     (let site_name = capitalize (py_replace file ''.txt'' [])
      in doc\<lparr>doc_metadata :=
               doc_metadata doc ++
                 [''source'' \<mapsto> file, ''site'' \<mapsto> site_name,
                  ''type'' \<mapsto> ''guide_officiel'', ''date'' \<mapsto> ''2024'']\<rparr>)"

text \<open>
  The loop over the file names. The state is the list \<open>documents\<close> built so far and the
  lines printed so far.
\<close>

fun load_loop ::
  "file_test \<Rightarrow> text_loader \<Rightarrow> string \<Rightarrow> string list \<Rightarrow>
   document list \<times> message list \<Rightarrow> document list \<times> message list" where
  "load_loop path_exists loader data_dir [] state = state"
| "load_loop path_exists loader data_dir (file # rest) (loaded, printed) =
     (let filepath = path_join data_dir file
      in load_loop path_exists loader data_dir rest
           (if path_exists filepath then
              (case loader filepath of
                 Inr docs \<Rightarrow>
                   (loaded @ map (add_metadata file) docs,
                    printed @ [Loaded file (length docs)])
               | Inl e \<Rightarrow> (loaded, printed @ [LoadFailed file e]))
            else (loaded, printed)))"

definition load_documents ::
  "file_test \<Rightarrow> text_loader \<Rightarrow> string \<Rightarrow> document list \<times> message list" where
  "load_documents path_exists loader data_dir =
     load_loop path_exists loader data_dir files ([], [])"

text \<open>What the loop does for one file name, starting from nothing loaded and nothing printed.\<close>

definition load_file ::
  "file_test \<Rightarrow> text_loader \<Rightarrow> string \<Rightarrow> string \<Rightarrow> document list \<times> message list" where
  "load_file path_exists loader data_dir file =
     load_loop path_exists loader data_dir [file] ([], [])"

subsection \<open>create_chunks, create_vector_store, main\<close>

definition create_chunks ::
  "text_splitter \<Rightarrow> document list \<Rightarrow> int \<Rightarrow> int \<Rightarrow> message list \<times> (error + document list)" where
  "create_chunks splitter docs chunk_size chunk_overlap =
     (case splitter chunk_size chunk_overlap docs of
        Inl e \<Rightarrow> ([], Inl e)
      | Inr chunks \<Rightarrow> ([ChunksCreated (length chunks)], Inr chunks))"

definition create_vector_store ::
  "'vs chroma \<Rightarrow> document list \<Rightarrow> string \<Rightarrow> message list \<times> (error + 'vs)" where
  "create_vector_store chroma chunks persist_directory =
     (case chroma chunks persist_directory of
        Inl e \<Rightarrow> ([], Inl e)
      | Inr (vectorstore, n) \<Rightarrow> ([StoreCreated persist_directory n], Inr vectorstore))"

text \<open>The loop printing the first 80 characters of each test result.\<close>

fun test_results :: "nat \<Rightarrow> document list \<Rightarrow> message list" where
  "test_results i [] = []"
| "test_results i (doc # rest) =
     TestResult (i + 1) (take 80 (page_content doc)) # test_results (Suc i) rest"

definition main ::
  "file_test \<Rightarrow> text_loader \<Rightarrow> text_splitter \<Rightarrow> 'vs chroma \<Rightarrow> 'vs searcher \<Rightarrow>
   message list \<times> 'vs outcome" where
  "main path_exists loader splitter chroma similarity_search =
     (case load_documents path_exists loader ''data/raw'' of
        (loaded, printed1) \<Rightarrow>
          let p1 = [Banner, LoadingDocuments] @ printed1 in
          if loaded = [] then (p1 @ [NoDocumentFound], NothingToIndex)
          else
            (case create_chunks splitter loaded 500 50 of
               (printed2, Inl e) \<Rightarrow> (p1 @ [Chunking] @ printed2, Raised e)
             | (printed2, Inr chunks) \<Rightarrow>
                 let p2 = p1 @ [Chunking] @ printed2 @ [CreatingStore] in
                 (case create_vector_store chroma chunks ''data/chroma_db'' of
                    (printed3, Inl e) \<Rightarrow> (p2 @ printed3, Raised e)
                  | (printed3, Inr vectorstore) \<Rightarrow>
                      let p3 = p2 @ printed3 @ [TestingSearch] in
                      (case similarity_search vectorstore ''Carthage'' 2 of
                         Inl e \<Rightarrow> (p3, Raised e)
                       | Inr found \<Rightarrow>
                           (p3 @ [TestQuery ''Carthage''] @ test_results 0 found @
                              [IngestionSucceeded],
                            Completed vectorstore)))))"

subsection \<open>The chunker\<close>

text \<open>
  The splitter that \<open>create_chunks\<close> configures is LangChain's
  \<open>RecursiveCharacterTextSplitter\<close>; its code is not part of the repository. The definitions
  of this subsection follow the description of the Chunker in the specification (section
  4.1), from \<open>chunk(document_text, chunk_size, chunk_overlap)\<close> down.
\<close>

text \<open>
  Modelled from the spec: the splitting of a text by a non-empty separator ("split the text
  by the current separator"), absent from the repository. The separators are dropped;
  \<open>skip\<close> counts the characters of a matched separator still to be passed over.
\<close>

fun split_from :: "string \<Rightarrow> nat \<Rightarrow> string \<Rightarrow> string \<Rightarrow> string list" where
  "split_from sep skip segment [] = [segment]"
| "split_from sep (Suc skip) segment (c # cs) = split_from sep skip segment cs"
| "split_from sep 0 segment (c # cs) =
     (if prefix sep (c # cs) then segment # split_from sep (length sep - 1) [] cs
      else split_from sep 0 (segment @ [c]) cs)"

text \<open>Modelled from the spec: "split the text by the current separator", absent from the
  repository.\<close>

definition split_on :: "string \<Rightarrow> string \<Rightarrow> string list" where
  "split_on sep str = split_from sep 0 [] str"

text \<open>
  Modelled from the spec: the "raw character slicing" that the empty separator falls back
  to, absent from the repository: windows of \<open>chunk_size\<close> characters, "sliding forward by
  chunk_size - chunk_overlap between windows". A text that fits is one window.
\<close>

function windows :: "nat \<Rightarrow> nat \<Rightarrow> string \<Rightarrow> string list" where
  "windows chunk_size chunk_overlap str =
     (if length str \<le> chunk_size \<or> chunk_size \<le> chunk_overlap then [str]
      else take chunk_size str #
           windows chunk_size chunk_overlap (drop (chunk_size - chunk_overlap) str))"
  by pat_completeness auto
termination
  by (relation "measure (\<lambda>(chunk_size, chunk_overlap, str). length str)") auto

declare windows.simps [simp del]

text \<open>
  Modelled from the spec: what a window keeps for the next one, so that "consecutive windows
  share chunk_overlap characters of context", absent from the repository: segments are
  dropped from the front of the window until the rest is no longer than \<open>chunk_overlap\<close>
  and leaves room for the next segment \<open>d\<close>.
\<close>

fun shrink :: "string \<Rightarrow> nat \<Rightarrow> nat \<Rightarrow> string \<Rightarrow> string list \<Rightarrow> string list" where
  "shrink sep chunk_size chunk_overlap d [] = []"
| "shrink sep chunk_size chunk_overlap d (s # window) =
     (if chunk_overlap < length (join sep (s # window)) \<or>
         chunk_size < length (join sep ((s # window) @ [d]))
      then shrink sep chunk_size chunk_overlap d window
      else s # window)"

text \<open>Modelled from the spec: the chunk made of a window of segments, joined by the
  separator they were split at, absent from the repository. An empty window gives no chunk.\<close>

definition emit :: "string \<Rightarrow> string list \<Rightarrow> string list" where
  "emit sep window = (if window = [] then [] else [join sep window])"

text \<open>
  Modelled from the spec: "reassemble segments into windows of at most chunk_size
  characters", absent from the repository. A segment joins the current window while the
  window stays within \<open>chunk_size\<close>; otherwise the window is emitted and the next one starts
  from its tail.
\<close>

fun merge_segments :: "string \<Rightarrow> nat \<Rightarrow> nat \<Rightarrow> string list \<Rightarrow> string list \<Rightarrow> string list" where
  "merge_segments sep chunk_size chunk_overlap [] window = emit sep window"
| "merge_segments sep chunk_size chunk_overlap (d # ds) window =
     (if chunk_size < length (join sep (window @ [d])) then
        emit sep window @
        merge_segments sep chunk_size chunk_overlap ds
          (shrink sep chunk_size chunk_overlap d window @ [d])
      else merge_segments sep chunk_size chunk_overlap ds (window @ [d]))"

text \<open>
  Modelled from the spec: the order of the chunks at one level, absent from the repository
  ("order must be preserved"). A piece is a segment that fits (\<open>Inl\<close>) or the chunks of a
  segment that was split further (\<open>Inr\<close>); the segments that fit are reassembled run by run,
  between the chunks of the others.
\<close>

fun reassemble ::
  "string \<Rightarrow> nat \<Rightarrow> nat \<Rightarrow> (string + string list) list \<Rightarrow> string list \<Rightarrow> string list" where
  "reassemble sep chunk_size chunk_overlap [] pending =
     merge_segments sep chunk_size chunk_overlap pending []"
| "reassemble sep chunk_size chunk_overlap (Inl segment # rest) pending =
     reassemble sep chunk_size chunk_overlap rest (pending @ [segment])"
| "reassemble sep chunk_size chunk_overlap (Inr chunks # rest) pending =
     merge_segments sep chunk_size chunk_overlap pending [] @ chunks @
     reassemble sep chunk_size chunk_overlap rest []"

text \<open>
  Modelled from the spec: the recursive splitting, absent from the repository: "At each
  level, split the text by the current separator; if a resulting segment still exceeds
  chunk_size, recurse into it with the next separator", the empty separator being the
  terminal one.
\<close>

fun split_text :: "string list \<Rightarrow> nat \<Rightarrow> nat \<Rightarrow> string \<Rightarrow> string list" where
  "split_text [] chunk_size chunk_overlap str = windows chunk_size chunk_overlap str"
| "split_text (sep # seps) chunk_size chunk_overlap str =
     (if sep = [] then windows chunk_size chunk_overlap str
      else reassemble sep chunk_size chunk_overlap
             (map (\<lambda>segment.
                     if chunk_size < length segment
                     then Inr (split_text seps chunk_size chunk_overlap segment)
                     else Inl segment)
                (split_on sep str))
             [])"

text \<open>Modelled from the spec: the "ordered list of separators", which are also the ones
  \<open>create_chunks\<close> passes: paragraph, line, sentence, space, character.\<close>

definition separators :: "string list" where
  "separators = [[CHR 0x0A, CHR 0x0A], [CHR 0x0A], ''. '', '' '', []]"

text \<open>Modelled from the spec: \<open>chunk(document_text, chunk_size, chunk_overlap)\<close>, the
  contract of the Chunker, absent from the repository.\<close>

definition chunk :: "string \<Rightarrow> nat \<Rightarrow> nat \<Rightarrow> string list" where
  "chunk document_text chunk_size chunk_overlap =
     split_text separators chunk_size chunk_overlap document_text"

text \<open>Modelled from the spec: the chunks of one document, absent from the repository; a
  chunk "inherits the parent Document's metadata".\<close>

definition chunk_document :: "nat \<Rightarrow> nat \<Rightarrow> document \<Rightarrow> document list" where
  "chunk_document chunk_size chunk_overlap doc =
     map (\<lambda>chunk_text. \<lparr>page_content = chunk_text, doc_metadata = doc_metadata doc\<rparr>)
       (chunk (page_content doc) chunk_size chunk_overlap)"

text \<open>
  Modelled from the spec: the splitter as \<open>create_chunks\<close> uses it, absent from the
  repository. "Inputs: chunk_size > 0, 0 \<le> chunk_overlap < chunk_size. Violations are a
  configuration error (reject before processing)."
\<close>

definition recursive_splitter :: text_splitter where
  "recursive_splitter chunk_size chunk_overlap docs =
     (if 0 < chunk_size \<and> 0 \<le> chunk_overlap \<and> chunk_overlap < chunk_size
      then Inr (concat (map (chunk_document (nat chunk_size) (nat chunk_overlap)) docs))
      else Inl ConfigurationError)"

section \<open>Concrete inputs\<close>

text \<open>Three hits from the Carthage guide; the first two have the same source entry.\<close>

definition carthage_meta :: metadata where
  "carthage_meta = [''site'' \<mapsto> ''Carthage'', ''source'' \<mapsto> ''carthage.txt'']"

definition hit_a :: hit where
  "hit_a = \<lparr>hit_id = 0, content = ''Carthage est une cite antique.'', metadata = carthage_meta,
            similarity_score = 0.9, distance = 0.1\<rparr>"

definition hit_b :: hit where
  "hit_b = \<lparr>hit_id = 1, content = ''Les thermes d'Antonin.'', metadata = carthage_meta,
            similarity_score = 0.9, distance = 0.1\<rparr>"

definition hit_c :: hit where
  "hit_c = \<lparr>hit_id = 2, content = ''Le tophet.'', metadata = carthage_meta,
            similarity_score = 0.801, distance = 0.199\<rparr>"


definition no_chunks :: collection where
  "no_chunks = (\<lambda>query_texts n_results.
     Inr \<lparr>documents = [[]], metadatas = [[]], distances = [[]]\<rparr>)"

definition broken_index :: collection where
  "broken_index = (\<lambda>query_texts n_results. Inl (LibraryError ''index unavailable''))"

text \<open>
  Source directories: one where only the Carthage guide exists, one that also holds a file
  that is not in the list, an empty one; a loader that reads every file it is given, and
  one that cannot decode the Dougga guide.
\<close>

definition only_carthage :: file_test where
  "only_carthage = (\<lambda>path. path = ''data/raw/carthage.txt'')"

definition carthage_and_notes :: file_test where
  "carthage_and_notes = (\<lambda>path. path = ''data/raw/carthage.txt'' \<or> path = ''data/raw/notes.txt'')"

definition carthage_and_dougga :: file_test where
  "carthage_and_dougga = (\<lambda>path. path = ''data/raw/carthage.txt'' \<or> path = ''data/raw/dougga.txt'')"

definition empty_directory :: file_test where
  "empty_directory = (\<lambda>path. False)"

definition reads_all :: text_loader where
  "reads_all = (\<lambda>path. Inr [\<lparr>page_content = ''Guide officiel'', doc_metadata = [''source'' \<mapsto> path]\<rparr>])"

definition dougga_undecodable :: text_loader where
  "dougga_undecodable = (\<lambda>path.
     if path = ''data/raw/dougga.txt'' then Inl (LibraryError ''Error loading data/raw/dougga.txt'')
     else Inr [\<lparr>page_content = ''Guide officiel'', doc_metadata = [''source'' \<mapsto> path]\<rparr>])"

text \<open>Stand-ins for the libraries: one chunk per document, a store that is the list of its
  chunks, a search that returns the first \<open>k\<close> of them.\<close>

definition whole_documents :: text_splitter where
  "whole_documents = (\<lambda>chunk_size chunk_overlap docs. Inr docs)"

definition list_store :: "(document list) chroma" where
  "list_store = (\<lambda>chunks directory. Inr (chunks, length chunks))"

definition list_search :: "(document list) searcher" where
  "list_search = (\<lambda>store text k. Inr (take (nat k) store))"

text \<open>A short guide, to be cut into chunks of at most 20 characters.\<close>

definition carthage_guide :: document where
  "carthage_guide =
     \<lparr>page_content = ''Carthage est une cite. Elle fut fondee par les Pheniciens.'',
      doc_metadata = carthage_meta\<rparr>"

section \<open>Properties of the float model\<close>

text \<open>Some doubles, as \<open>float.hex\<close> prints them in Python: 0.1, 0.851, 0.999 and 1/3.\<close>

lemma fl_examples:
  "fl 0.1 = 3602879701896397 / 2 ^ 55"
  "fl 0.851 = 958140820723073 / 2 ^ 50"
  "fl 0.999 = 8998192055486251 / 2 ^ 53"
  "fl (1 / 3) = 6004799503160661 / 2 ^ 54"
  "fl (3 / 4) = 3 / 4"
  by code_simp+



















section \<open>Properties of the retrieval engine\<close>

subsection \<open>The loop of generate_response\<close>

lemma collect_append: "collect (xs @ ys) acc = collect ys (collect xs acc)"
  by (induction xs acc rule: collect.induct) simp_all

lemma fst_collect: "fst (collect hits (cp, ss)) = cp @ map content hits"
  by (induction hits "(cp, ss)" arbitrary: cp ss rule: collect.induct) simp_all

lemma snd_collect_snoc:
  "snd (collect (hs @ [h]) acc) =
     (if source_of h \<notin> set (snd (collect hs acc)) then snd (collect hs acc) @ [source_of h]
      else snd (collect hs acc))"
  by (cases "collect hs acc") (simp add: collect_append)

lemma set_snd_collect: "set (snd (collect hs ([], []))) = source_of ` set hs"
proof (induction hs rule: rev_induct)
  case Nil
  show ?case by simp
next
  case (snoc h hs)
  show ?case unfolding snd_collect_snoc using snoc by auto
qed

lemma distinct_snd_collect: "distinct (snd (collect hs ([], [])))"
proof (induction hs rule: rev_induct)
  case Nil
  show ?case by simp
next
  case (snoc h hs)
  show ?case unfolding snd_collect_snoc using snoc by simp
qed

lemma first_occurrences_snoc:
  "[i \<leftarrow> [0..<length (ts @ [t])]. (ts @ [t]) ! i \<notin> set (take i (ts @ [t]))] =
     [i \<leftarrow> [0..<length ts]. ts ! i \<notin> set (take i ts)] @ (if t \<notin> set ts then [length ts] else [])"
proof -
  have "[i \<leftarrow> [0..<length ts]. (ts @ [t]) ! i \<notin> set (take i (ts @ [t]))] =
        [i \<leftarrow> [0..<length ts]. ts ! i \<notin> set (take i ts)]"
    by (rule filter_cong) (simp_all add: nth_append)
  then show ?thesis by simp
qed

lemma map_nth_snoc:
  "map ((!) (ts @ [t])) [i \<leftarrow> [0..<length ts]. P i] = map ((!) ts) [i \<leftarrow> [0..<length ts]. P i]"
  by (rule map_cong) (simp_all add: nth_append)

lemma snd_collect_first_occurrences:
  "snd (collect hs ([], [])) =
     map ((!) (map source_of hs))
       [i \<leftarrow> [0..<length hs]. map source_of hs ! i \<notin> set (take i (map source_of hs))]"
proof (induction hs rule: rev_induct)
  case Nil
  show ?case by simp
next
  case (snoc h hs)
  let ?ts = "map source_of hs"
  have idx: "[i \<leftarrow> [0..<length (hs @ [h])].
               map source_of (hs @ [h]) ! i \<notin> set (take i (map source_of (hs @ [h])))] =
             [i \<leftarrow> [0..<length hs]. ?ts ! i \<notin> set (take i ?ts)] @
               (if source_of h \<notin> set ?ts then [length hs] else [])"
    using first_occurrences_snoc [of ?ts "source_of h"] by simp
  have mem: "source_of h \<notin> set (snd (collect hs ([], []))) \<longleftrightarrow> source_of h \<notin> set ?ts"
    by (simp add: set_snd_collect)
  have old: "map ((!) (map source_of (hs @ [h]))) [i \<leftarrow> [0..<length hs]. ?ts ! i \<notin> set (take i ?ts)]
           = map ((!) ?ts) [i \<leftarrow> [0..<length hs]. ?ts ! i \<notin> set (take i ?ts)]"
    using map_nth_snoc [of ?ts "source_of h" "\<lambda>i. ?ts ! i \<notin> set (take i ?ts)"] by simp
  show ?case
    unfolding snd_collect_snoc idx mem
    using snoc old by (simp add: nth_append)
qed

lemma sources_collect:
  "sources (generate_response q hits) = snd (collect hits ([], []))"
  by (cases "collect hits ([], [])") (auto simp add: generate_response_def Let_def)

lemma answer_collect:
  "hits \<noteq> [] \<Longrightarrow>
   answer (generate_response q hits) =
     answer_prefix @ join [CHR 0x0A, CHR 0x0A] (fst (collect hits ([], [])))"
  by (cases "collect hits ([], [])") (simp add: generate_response_def Let_def)




text \<open>
  C9: called directly with an empty context list, \<open>generate_response\<close> returns the fields
  answer, sources and confidence only (no \<open>context_results\<close> key), and its fixed answer
  text is not the no-hit text of \<open>query\<close>.
\<close>

theorem generate_response_empty:
  "generate_response q [] =
     \<lparr>answer = no_context_answer, sources = [], confidence = 0, context_results = None\<rparr>
   \<and> context_results (generate_response q []) = None
   \<and> context_results no_match_response = Some 0
   \<and> answer (generate_response q []) \<noteq> answer no_match_response"
  by (simp add: generate_response_def no_match_response_def no_context_answer_def
      no_match_answer_def)

subsection \<open>Claims about generate_response\<close>



text \<open>
  C8: for a non-empty list of hits, the answer text is the fixed template prefix followed by
  the contents of all hits, in the order of the list, consecutive contents being separated by
  a blank line (two newline characters).
\<close>

theorem answer_is_prefixed_contents:
  assumes "hits \<noteq> []"
  shows "answer (generate_response q hits) =
           answer_prefix @ join [CHR 0x0A, CHR 0x0A] (map content hits)"
  using assms fst_collect [of hits "[]" "[]"] by (simp add: answer_collect)

theorem answer_is_prefixed_contents_witness:
  "[hit_a, hit_b, hit_c] \<noteq> []
   \<and> answer (generate_response ''Carthage'' [hit_a, hit_b, hit_c]) =
       answer_prefix @ ''Carthage est une cite antique.'' @ [CHR 0x0A, CHR 0x0A] @
       ''Les thermes d'Antonin.'' @ [CHR 0x0A, CHR 0x0A] @ ''Le tophet.''"
proof -
  have ne: "[hit_a, hit_b, hit_c] \<noteq> []" by simp
  show ?thesis
    using answer_is_prefixed_contents [OF ne, of "''Carthage''"]
    by (simp add: hit_a_def hit_b_def hit_c_def)
qed

text \<open>
  C2: the sources list holds the (site, source, score) entry of a hit exactly when no earlier
  hit has the same entry, in the order of these first occurrences; so it has no duplicate and
  holds every hit's entry. Two hits with the same entry give one entry; two hits with the same
  site and different scores give two.
\<close>

theorem sources_first_occurrences:
  "sources (generate_response q hits) =
     map ((!) (map source_of hits))
       [i \<leftarrow> [0..<length hits]. map source_of hits ! i \<notin> set (take i (map source_of hits))]
   \<and> distinct (sources (generate_response q hits))
   \<and> set (sources (generate_response q hits)) = source_of ` set hits
   \<and> (source_of h1 = source_of h2 \<longrightarrow>
        sources (generate_response q [h1, h2]) = [source_of h1])
   \<and> (site (source_of h1) = site (source_of h2) \<and> similarity_score h1 \<noteq> similarity_score h2 \<longrightarrow>
        sources (generate_response q [h1, h2]) = [source_of h1, source_of h2])"
proof -
  have two: "sources (generate_response q [h1, h2]) =
      (if source_of h2 \<noteq> source_of h1 then [source_of h1, source_of h2] else [source_of h1])"
    by (simp add: sources_collect)
  have differ: "similarity_score h1 \<noteq> similarity_score h2 \<Longrightarrow> source_of h2 \<noteq> source_of h1"
    by (auto simp: source_of_def Let_def)
  show ?thesis
    using two differ
    by (simp add: sources_collect distinct_snd_collect set_snd_collect
        snd_collect_first_occurrences [symmetric])
qed

theorem sources_first_occurrences_witness:
  "source_of hit_a = source_of hit_b
   \<and> sources (generate_response ''Carthage'' [hit_a, hit_b]) = [source_of hit_a]
   \<and> site (source_of hit_a) = site (source_of hit_c)
   \<and> similarity_score hit_a \<noteq> similarity_score hit_c
   \<and> sources (generate_response ''Carthage'' [hit_a, hit_c]) =
       [\<lparr>site = ''Carthage'', source = ''carthage.txt'', score = 0.9\<rparr>,
        \<lparr>site = ''Carthage'', source = ''carthage.txt'', score = 0.801\<rparr>]"
proof -
  have same: "source_of hit_a = source_of hit_b"
    by (simp add: source_of_def hit_a_def hit_b_def)
  have site_eq: "site (source_of hit_a) = site (source_of hit_c)"
    by (simp add: source_of_def hit_a_def hit_c_def)
  have score_ne: "similarity_score hit_a \<noteq> similarity_score hit_c"
    by (simp add: hit_a_def hit_c_def)
  have a: "source_of hit_a = \<lparr>site = ''Carthage'', source = ''carthage.txt'', score = 0.9\<rparr>"
    by (simp add: source_of_def hit_a_def carthage_meta_def dict_get_def)
  have c: "source_of hit_c = \<lparr>site = ''Carthage'', source = ''carthage.txt'', score = 0.801\<rparr>"
    by (simp add: source_of_def hit_c_def carthage_meta_def dict_get_def)
  show ?thesis
    using same site_eq score_ne a c
      sources_first_occurrences [of "''Carthage''" "[]" hit_a hit_b]
      sources_first_occurrences [of "''Carthage''" "[]" hit_a hit_c]
    by simp
qed

subsection \<open>The loop of search\<close>






subsection \<open>Claims about search and query\<close>



text \<open>
  C3: when the search step returns no hit, \<open>query\<close> returns normally (not an exception) the
  fixed result: the "no information" text, no sources, confidence 0.0 and context_results 0.
\<close>

theorem query_no_hits:
  assumes "search collection question k = Inr []"
  shows "query collection question k = Inr no_match_response
         \<and> answer no_match_response = no_match_answer
         \<and> sources no_match_response = []
         \<and> confidence no_match_response = 0
         \<and> context_results no_match_response = Some 0"
  using assms by (simp add: query_def no_match_response_def)

theorem query_no_hits_witness:
  "search no_chunks ''zzz_nonexistent_token'' 3 = Inr []
   \<and> query no_chunks ''zzz_nonexistent_token'' 3 =
       Inr \<lparr>answer = no_match_answer, sources = [], confidence = 0, context_results = Some 0\<rparr>"
proof -
  have s: "search no_chunks ''zzz_nonexistent_token'' 3 = Inr []"
    by (simp add: search_def no_chunks_def)
  show ?thesis
    using s query_no_hits [OF s] by (simp add: no_match_response_def)
qed

text \<open>
  C4, as the specification states it, asks that \<open>query\<close> turn every failure of the embedding
  or index layer into an error result. It does not: with an index that cannot be read,
  \<open>query\<close> raises the library's exception.
\<close>

theorem query_raises_counterexample:
  "query broken_index ''Carthage'' 3 = Inl (LibraryError ''index unavailable'')"
  by (simp add: query_def search_def broken_index_def)

text \<open>
  C4, amended: an exception raised by the embedding or index layer propagates unchanged
  through \<open>search\<close> and through \<open>query\<close>, which converts nothing and returns no result, so its
  outcome is not the no-match result. The conversion is done by the caller: the page shows
  an error message for it, and the warning for a search without hits.
\<close>

theorem failure_propagates_to_caller:
  assumes "collection [question] k = Inl e"
  shows "search collection question k = Inl e
         \<and> query collection question k = Inl e
         \<and> query collection question k \<noteq> Inr no_match_response
         \<and> (k = 3 \<and> question \<noteq> [] \<longrightarrow>
              chatbot_search (Some collection) question = Some (ShowSearchError e))
         \<and> (search other question 3 = Inr [] \<and> question \<noteq> [] \<longrightarrow>
              chatbot_search (Some other) question = Some WarnNoInformation)"
proof -
  have s: "search collection question k = Inl e"
    using assms by (simp add: search_def)
  then have q: "query collection question k = Inl e"
    by (simp add: query_def)
  have shown: "chatbot_search (Some collection) question = Some (ShowSearchError e)"
    if "k = 3" and "question \<noteq> []"
    using q that by (simp add: chatbot_search_def)
  have warned: "chatbot_search (Some other) question = Some WarnNoInformation"
    if "search other question 3 = Inr []" and "question \<noteq> []"
    using that by (simp add: chatbot_search_def query_def no_match_response_def)
  show ?thesis
    using s q shown warned by simp
qed

theorem failure_propagates_to_caller_witness:
  "broken_index [''Carthage''] 3 = Inl (LibraryError ''index unavailable'')
   \<and> search broken_index ''Carthage'' 3 = Inl (LibraryError ''index unavailable'')
   \<and> query broken_index ''Carthage'' 3 = Inl (LibraryError ''index unavailable'')
   \<and> chatbot_search (Some broken_index) ''Carthage'' =
       Some (ShowSearchError (LibraryError ''index unavailable''))
   \<and> search no_chunks ''Carthage'' 3 = Inr []
   \<and> chatbot_search (Some no_chunks) ''Carthage'' = Some WarnNoInformation"
proof -
  have b: "broken_index [''Carthage''] 3 = Inl (LibraryError ''index unavailable'')"
    by (simp add: broken_index_def)
  have s: "search no_chunks ''Carthage'' 3 = Inr []"
    by (simp add: search_def no_chunks_def)
  show ?thesis
    using b s
      failure_propagates_to_caller
        [of broken_index "''Carthage''" 3 "LibraryError ''index unavailable''" no_chunks]
    by simp
qed

section \<open>Properties of the ingestion script\<close>

subsection \<open>The loop of load_documents\<close>

lemma load_file_eq:
  "load_file pe ld dir f =
     (if pe (path_join dir f) then
        (case ld (path_join dir f) of
           Inr docs \<Rightarrow> (map (add_metadata f) docs, [Loaded f (length docs)])
         | Inl e \<Rightarrow> ([], [LoadFailed f e]))
      else ([], []))"
  by (simp add: load_file_def Let_def split: sum.splits)

lemma load_loop_eq:
  "load_loop pe ld dir fs (loaded, printed) =
     (loaded @ concat (map (\<lambda>f. fst (load_file pe ld dir f)) fs),
      printed @ concat (map (\<lambda>f. snd (load_file pe ld dir f)) fs))"
proof (induction fs arbitrary: loaded printed)
  case Nil
  show ?case by simp
next
  case (Cons f fs)
  show ?case
    by (simp add: Let_def load_file_eq Cons split: sum.splits)
qed

lemma load_documents_eq:
  "load_documents pe ld dir =
     (concat (map (\<lambda>f. fst (load_file pe ld dir f)) files),
      concat (map (\<lambda>f. snd (load_file pe ld dir f)) files))"
  using load_loop_eq [of pe ld dir files "[]" "[]"] by (simp add: load_documents_def)

lemma load_file_cong:
  assumes "pe (path_join dir f) = pe' (path_join dir f)"
    and "ld (path_join dir f) = ld' (path_join dir f)"
  shows "load_file pe ld dir f = load_file pe' ld' dir f"
  using assms by (simp add: load_file_eq)

lemma source_add_metadata: "doc_metadata (add_metadata f d) ''source'' = Some f"
  by (simp add: add_metadata_def Let_def)

lemma load_file_source:
  "d \<in> set (fst (load_file pe ld dir f)) \<Longrightarrow> doc_metadata d ''source'' = Some f"
  by (auto simp: load_file_eq source_add_metadata split: if_splits sum.splits)

lemma load_file_messages:
  "m \<in> set (snd (load_file pe ld dir f)) \<Longrightarrow>
   pe (path_join dir f) \<and> ((\<exists>n. m = Loaded f n) \<or> (\<exists>e. m = LoadFailed f e))"
  by (auto simp: load_file_eq split: if_splits sum.splits)

lemma load_documents_messages:
  assumes "m \<in> set (snd (load_documents pe ld dir))"
  shows "\<exists>f\<in>set files. pe (path_join dir f) \<and> ((\<exists>n. m = Loaded f n) \<or> (\<exists>e. m = LoadFailed f e))"
proof -
  from assms obtain f where "f \<in> set files" and "m \<in> set (snd (load_file pe ld dir f))"
    by (auto simp: load_documents_eq)
  then show ?thesis
    using load_file_messages [of m pe ld dir f] by blast
qed

lemma no_document_found_not_loading:
  "NoDocumentFound \<notin> set (snd (load_documents pe ld dir))"
  using load_documents_messages [of NoDocumentFound pe ld dir] by auto

lemma no_document_found_not_test: "NoDocumentFound \<notin> set (test_results i ds)"
  by (induction ds arbitrary: i) simp_all

lemma main_nothing_loaded:
  assumes "fst (load_documents pe ld ''data/raw'') = []"
  shows "main pe ld sp ch ss =
           ([Banner, LoadingDocuments] @ snd (load_documents pe ld ''data/raw'') @ [NoDocumentFound],
            NothingToIndex)"
  using assms by (cases "load_documents pe ld ''data/raw''") (simp add: main_def)

lemma main_something_loaded:
  assumes "fst (load_documents pe ld ''data/raw'') \<noteq> []"
  shows "NoDocumentFound \<notin> set (fst (main pe ld sp ch ss)) \<and> snd (main pe ld sp ch ss) \<noteq> NothingToIndex"
proof -
  obtain loaded printed where l: "load_documents pe ld ''data/raw'' = (loaded, printed)"
    by (cases "load_documents pe ld ''data/raw''")
  with assms have ne: "loaded \<noteq> []" by simp
  have np: "NoDocumentFound \<notin> set printed"
    using no_document_found_not_loading [of pe ld "''data/raw''"] l by simp
  show ?thesis
    using ne np l
    by (auto simp: main_def Let_def create_chunks_def create_vector_store_def
        no_document_found_not_test split: sum.splits prod.splits)
qed

lemma main_completed:
  assumes "load_documents pe ld ''data/raw'' = (loaded, printed)" and "loaded \<noteq> []"
    and "sp 500 50 loaded = Inr chunks" and "ch chunks ''data/chroma_db'' = Inr (vs, n)"
    and "ss vs ''Carthage'' 2 = Inr found"
  shows "snd (main pe ld sp ch ss) = Completed vs \<and>
         last (fst (main pe ld sp ch ss)) = IngestionSucceeded"
  using assms
  by (simp add: main_def Let_def create_chunks_def create_vector_store_def)

lemma main_continues:
  assumes "fst (load_documents pe ld ''data/raw'') \<noteq> []"
  shows "main pe ld sp ch ss =
     (let loaded = fst (load_documents pe ld ''data/raw'');
          p1 = [Banner, LoadingDocuments] @ snd (load_documents pe ld ''data/raw'') @ [Chunking]
      in case sp 500 50 loaded of
           Inl e \<Rightarrow> (p1, Raised e)
         | Inr chunks \<Rightarrow>
             let p2 = p1 @ [ChunksCreated (length chunks), CreatingStore]
             in (case ch chunks ''data/chroma_db'' of
                   Inl e \<Rightarrow> (p2, Raised e)
                 | Inr (vectorstore, n) \<Rightarrow>
                     let p3 = p2 @ [StoreCreated ''data/chroma_db'' n, TestingSearch]
                     in (case ss vectorstore ''Carthage'' 2 of
                           Inl e \<Rightarrow> (p3, Raised e)
                         | Inr found \<Rightarrow>
                             (p3 @ [TestQuery ''Carthage''] @ test_results 0 found @
                                [IngestionSucceeded],
                              Completed vectorstore))))"
  using assms
  by (cases "load_documents pe ld ''data/raw''")
    (simp add: main_def Let_def create_chunks_def create_vector_store_def
      split: sum.splits prod.splits)

subsection \<open>Claims about ingestion\<close>

text \<open>
  C5, as the specification states it, asks that a missing source file be recorded as a
  per-document failure. It is not: here four of the five files are missing, and the only
  line printed by the loading step is the one for the file that was loaded.
\<close>

theorem missing_file_not_recorded_counterexample:
  "only_carthage (path_join ''data/raw'' ''dougga.txt'') = False
   \<and> snd (load_documents only_carthage reads_all ''data/raw'') = [Loaded ''carthage.txt'' 1]"
  by (simp add: load_documents_def files_def path_join_def only_carthage_def reads_all_def)

text \<open>
  C5, amended: the loading step handles each of the configured files on its own and in
  order, so what happens to one file never stops the others. A missing file is skipped and
  nothing is recorded for it; a file that exists and cannot be loaded is recorded as a
  per-document error line and skipped; a file that loads contributes its documents and a
  success line. Every line of the loading step is about a file that exists. If no document
  was loaded, \<open>main\<close> prints the "no document found" line and stops: nothing is chunked or
  indexed. If some document was loaded, \<open>main\<close> never prints that line and goes on, whatever
  happened to the other files: it prints the chunking line and hands the loaded documents to
  the splitter (chunk size 500, overlap 50), hands the chunks to the vector store, runs the
  test search, and ends with the success line; an exception of one of these three steps ends
  the run there.
\<close>

theorem ingestion_failure_policy:
  "load_documents pe ld dir =
     (concat (map (\<lambda>f. fst (load_file pe ld dir f)) files),
      concat (map (\<lambda>f. snd (load_file pe ld dir f)) files))
   \<and> (\<not> pe (path_join dir file) \<longrightarrow> load_file pe ld dir file = ([], []))
   \<and> (pe (path_join dir file) \<and> ld (path_join dir file) = Inl e \<longrightarrow>
        load_file pe ld dir file = ([], [LoadFailed file e]))
   \<and> (pe (path_join dir file) \<and> ld (path_join dir file) = Inr docs \<longrightarrow>
        load_file pe ld dir file = (map (add_metadata file) docs, [Loaded file (length docs)]))
   \<and> (\<forall>m\<in>set (snd (load_documents pe ld dir)).
        \<exists>f\<in>set files. pe (path_join dir f) \<and> ((\<exists>n. m = Loaded f n) \<or> (\<exists>e. m = LoadFailed f e)))
   \<and> (fst (load_documents pe ld ''data/raw'') = [] \<longrightarrow>
        main pe ld sp ch ss =
          ([Banner, LoadingDocuments] @ snd (load_documents pe ld ''data/raw'') @ [NoDocumentFound],
           NothingToIndex))
   \<and> (fst (load_documents pe ld ''data/raw'') \<noteq> [] \<longrightarrow>
        NoDocumentFound \<notin> set (fst (main pe ld sp ch ss)) \<and>
        snd (main pe ld sp ch ss) \<noteq> NothingToIndex)
   \<and> (fst (load_documents pe ld ''data/raw'') \<noteq> [] \<longrightarrow>
        main pe ld sp ch ss =
          (let loaded = fst (load_documents pe ld ''data/raw'');
               p1 = [Banner, LoadingDocuments] @ snd (load_documents pe ld ''data/raw'') @
                    [Chunking]
           in case sp 500 50 loaded of
                Inl e \<Rightarrow> (p1, Raised e)
              | Inr chunks \<Rightarrow>
                  let p2 = p1 @ [ChunksCreated (length chunks), CreatingStore]
                  in (case ch chunks ''data/chroma_db'' of
                        Inl e \<Rightarrow> (p2, Raised e)
                      | Inr (vectorstore, n) \<Rightarrow>
                          let p3 = p2 @ [StoreCreated ''data/chroma_db'' n, TestingSearch]
                          in (case ss vectorstore ''Carthage'' 2 of
                                Inl e \<Rightarrow> (p3, Raised e)
                              | Inr found \<Rightarrow>
                                  (p3 @ [TestQuery ''Carthage''] @ test_results 0 found @
                                     [IngestionSucceeded],
                                   Completed vectorstore)))))"
proof -
  have per_file: "load_documents pe ld dir =
     (concat (map (\<lambda>f. fst (load_file pe ld dir f)) files),
      concat (map (\<lambda>f. snd (load_file pe ld dir f)) files))"
    by (rule load_documents_eq)
  have missing: "\<not> pe (path_join dir file) \<longrightarrow> load_file pe ld dir file = ([], [])"
    by (simp add: load_file_eq)
  have failed: "pe (path_join dir file) \<and> ld (path_join dir file) = Inl e \<longrightarrow>
        load_file pe ld dir file = ([], [LoadFailed file e])"
    by (simp add: load_file_eq)
  have loaded: "pe (path_join dir file) \<and> ld (path_join dir file) = Inr docs \<longrightarrow>
        load_file pe ld dir file = (map (add_metadata file) docs, [Loaded file (length docs)])"
    by (simp add: load_file_eq)
  have lines: "\<forall>m\<in>set (snd (load_documents pe ld dir)).
        \<exists>f\<in>set files. pe (path_join dir f) \<and> ((\<exists>n. m = Loaded f n) \<or> (\<exists>e. m = LoadFailed f e))"
    using load_documents_messages [of _ pe ld dir] by blast
  have none: "fst (load_documents pe ld ''data/raw'') = [] \<longrightarrow>
        main pe ld sp ch ss =
          ([Banner, LoadingDocuments] @ snd (load_documents pe ld ''data/raw'') @ [NoDocumentFound],
           NothingToIndex)"
    using main_nothing_loaded [of pe ld sp ch ss] by blast
  have some: "fst (load_documents pe ld ''data/raw'') \<noteq> [] \<longrightarrow>
        NoDocumentFound \<notin> set (fst (main pe ld sp ch ss)) \<and>
        snd (main pe ld sp ch ss) \<noteq> NothingToIndex"
    using main_something_loaded [of pe ld sp ch ss] by blast
  have continues: "fst (load_documents pe ld ''data/raw'') \<noteq> [] \<longrightarrow>
        main pe ld sp ch ss =
          (let loaded = fst (load_documents pe ld ''data/raw'');
               p1 = [Banner, LoadingDocuments] @ snd (load_documents pe ld ''data/raw'') @
                    [Chunking]
           in case sp 500 50 loaded of
                Inl e \<Rightarrow> (p1, Raised e)
              | Inr chunks \<Rightarrow>
                  let p2 = p1 @ [ChunksCreated (length chunks), CreatingStore]
                  in (case ch chunks ''data/chroma_db'' of
                        Inl e \<Rightarrow> (p2, Raised e)
                      | Inr (vectorstore, n) \<Rightarrow>
                          let p3 = p2 @ [StoreCreated ''data/chroma_db'' n, TestingSearch]
                          in (case ss vectorstore ''Carthage'' 2 of
                                Inl e \<Rightarrow> (p3, Raised e)
                              | Inr found \<Rightarrow>
                                  (p3 @ [TestQuery ''Carthage''] @ test_results 0 found @
                                     [IngestionSucceeded],
                                   Completed vectorstore))))"
    using main_continues [of pe ld sp ch ss] by blast
  show ?thesis
    using per_file missing failed loaded lines none some continues by (intro conjI)
qed

theorem ingestion_failure_policy_witness:
  "carthage_and_dougga (path_join ''data/raw'' ''el_jem.txt'') = False
   \<and> load_file carthage_and_dougga dougga_undecodable ''data/raw'' ''el_jem.txt'' = ([], [])
   \<and> carthage_and_dougga (path_join ''data/raw'' ''dougga.txt'')
   \<and> dougga_undecodable (path_join ''data/raw'' ''dougga.txt'') =
       Inl (LibraryError ''Error loading data/raw/dougga.txt'')
   \<and> load_file carthage_and_dougga dougga_undecodable ''data/raw'' ''dougga.txt'' =
       ([], [LoadFailed ''dougga.txt'' (LibraryError ''Error loading data/raw/dougga.txt'')])
   \<and> snd (load_documents carthage_and_dougga dougga_undecodable ''data/raw'') =
       [Loaded ''carthage.txt'' 1,
        LoadFailed ''dougga.txt'' (LibraryError ''Error loading data/raw/dougga.txt'')]
   \<and> map page_content (fst (load_documents carthage_and_dougga dougga_undecodable ''data/raw'')) =
       [''Guide officiel'']
   \<and> NoDocumentFound \<notin>
       set (fst (main carthage_and_dougga dougga_undecodable whole_documents list_store list_search))
   \<and> snd (main carthage_and_dougga dougga_undecodable whole_documents list_store list_search)
       \<noteq> NothingToIndex
   \<and> fst (main carthage_and_dougga dougga_undecodable whole_documents list_store list_search) =
       [Banner, LoadingDocuments, Loaded ''carthage.txt'' 1,
        LoadFailed ''dougga.txt'' (LibraryError ''Error loading data/raw/dougga.txt''),
        Chunking, ChunksCreated 1, CreatingStore, StoreCreated ''data/chroma_db'' 1,
        TestingSearch, TestQuery ''Carthage'', TestResult 1 ''Guide officiel'',
        IngestionSucceeded]
   \<and> map page_content
        (case snd (main carthage_and_dougga dougga_undecodable whole_documents list_store
                     list_search) of
           Completed store \<Rightarrow> store | _ \<Rightarrow> []) = [''Guide officiel'']
   \<and> fst (load_documents empty_directory reads_all ''data/raw'') = []
   \<and> main empty_directory reads_all whole_documents list_store list_search =
       ([Banner, LoadingDocuments, NoDocumentFound], NothingToIndex)"
proof -
  have m: "carthage_and_dougga (path_join ''data/raw'' ''el_jem.txt'') = False"
    by (simp add: carthage_and_dougga_def path_join_def)
  have x: "carthage_and_dougga (path_join ''data/raw'' ''dougga.txt'')"
    by (simp add: carthage_and_dougga_def path_join_def)
  have u: "dougga_undecodable (path_join ''data/raw'' ''dougga.txt'') =
       Inl (LibraryError ''Error loading data/raw/dougga.txt'')"
    by (simp add: dougga_undecodable_def path_join_def)
  have l: "load_documents carthage_and_dougga dougga_undecodable ''data/raw'' =
       ([add_metadata ''carthage.txt''
           \<lparr>page_content = ''Guide officiel'',
            doc_metadata = [''source'' \<mapsto> ''data/raw/carthage.txt'']\<rparr>],
        [Loaded ''carthage.txt'' 1,
         LoadFailed ''dougga.txt'' (LibraryError ''Error loading data/raw/dougga.txt'')])"
    by (simp add: load_documents_def files_def path_join_def carthage_and_dougga_def
        dougga_undecodable_def)
  have p: "page_content (add_metadata ''carthage.txt''
           \<lparr>page_content = ''Guide officiel'',
            doc_metadata = [''source'' \<mapsto> ''data/raw/carthage.txt'']\<rparr>) = ''Guide officiel''"
    by (simp add: add_metadata_def Let_def)
  have n: "load_documents empty_directory reads_all ''data/raw'' = ([], [])"
    by (simp add: load_documents_def files_def path_join_def empty_directory_def)
  note a = ingestion_failure_policy
      [of carthage_and_dougga dougga_undecodable "''data/raw''" "''el_jem.txt''" _ _
          whole_documents list_store list_search]
  note b = ingestion_failure_policy
      [of carthage_and_dougga dougga_undecodable "''data/raw''" "''dougga.txt''"
          "LibraryError ''Error loading data/raw/dougga.txt''" _
          whole_documents list_store list_search]
  note c = ingestion_failure_policy
      [of empty_directory reads_all "''data/raw''" _ _ _ whole_documents list_store list_search]
  have some_loaded: "fst (load_documents carthage_and_dougga dougga_undecodable ''data/raw'') \<noteq> []"
    using l by simp
  have a1: "load_file carthage_and_dougga dougga_undecodable ''data/raw'' ''el_jem.txt'' = ([], [])"
    using a m by blast
  have b1: "load_file carthage_and_dougga dougga_undecodable ''data/raw'' ''dougga.txt'' =
       ([], [LoadFailed ''dougga.txt'' (LibraryError ''Error loading data/raw/dougga.txt'')])"
    using b x u by blast
  have a2: "NoDocumentFound \<notin>
       set (fst (main carthage_and_dougga dougga_undecodable whole_documents list_store list_search))
     \<and> snd (main carthage_and_dougga dougga_undecodable whole_documents list_store list_search)
       \<noteq> NothingToIndex"
    using a some_loaded by blast
  have c1: "main empty_directory reads_all whole_documents list_store list_search =
       ([Banner, LoadingDocuments, NoDocumentFound], NothingToIndex)"
    using c n by simp
  have a3: "main carthage_and_dougga dougga_undecodable whole_documents list_store list_search =
       ([Banner, LoadingDocuments, Loaded ''carthage.txt'' 1,
         LoadFailed ''dougga.txt'' (LibraryError ''Error loading data/raw/dougga.txt''),
         Chunking, ChunksCreated 1, CreatingStore, StoreCreated ''data/chroma_db'' 1,
         TestingSearch, TestQuery ''Carthage'', TestResult 1 ''Guide officiel'',
         IngestionSucceeded],
        Completed [add_metadata ''carthage.txt''
           \<lparr>page_content = ''Guide officiel'',
            doc_metadata = [''source'' \<mapsto> ''data/raw/carthage.txt'']\<rparr>])"
    using a [THEN conjunct2, THEN conjunct2, THEN conjunct2, THEN conjunct2, THEN conjunct2,
        THEN conjunct2, THEN conjunct2, THEN mp, OF some_loaded]
    by (simp add: l p Let_def whole_documents_def list_store_def list_search_def)
  show ?thesis
    using m x u a1 b1 a2 a3 c1 l p n by simp
qed

text \<open>
  C10: document loading only looks at the five fixed file names \<open>carthage.txt\<close>,
  \<open>dougga.txt\<close>, \<open>el_jem.txt\<close>, \<open>kerkouane.txt\<close> and \<open>sbeitla.txt\<close> in the source directory.
  Two file systems that agree on these five paths give the same documents and the same
  printed lines, whatever other files they hold, and hence the same run of \<open>main\<close>; and every
  loaded document carries one of the five names as its source.
\<close>

theorem load_documents_fixed_files:
  assumes "\<forall>f\<in>set files.
             pe (path_join dir f) = pe' (path_join dir f) \<and>
             ld (path_join dir f) = ld' (path_join dir f)"
  shows "files = [''carthage.txt'', ''dougga.txt'', ''el_jem.txt'', ''kerkouane.txt'', ''sbeitla.txt'']
         \<and> load_documents pe ld dir = load_documents pe' ld' dir
         \<and> (\<forall>d\<in>set (fst (load_documents pe ld dir)).
              \<exists>f\<in>set files. doc_metadata d ''source'' = Some f)
         \<and> (dir = ''data/raw'' \<longrightarrow> main pe ld sp ch ss = main pe' ld' sp ch ss)"
proof -
  have same_file: "load_file pe ld dir f = load_file pe' ld' dir f" if "f \<in> set files" for f
    using assms that by (intro load_file_cong) auto
  have same: "load_documents pe ld dir = load_documents pe' ld' dir"
    unfolding load_documents_eq
    using same_file by (simp cong: map_cong)
  have src: "\<forall>d\<in>set (fst (load_documents pe ld dir)).
              \<exists>f\<in>set files. doc_metadata d ''source'' = Some f"
    by (auto simp: load_documents_eq dest: load_file_source)
  have run: "dir = ''data/raw'' \<longrightarrow> main pe ld sp ch ss = main pe' ld' sp ch ss"
  proof
    assume "dir = ''data/raw''"
    with same have "load_documents pe ld ''data/raw'' = load_documents pe' ld' ''data/raw''"
      by simp
    then show "main pe ld sp ch ss = main pe' ld' sp ch ss"
      by (simp only: main_def)
  qed
  show ?thesis
    using same src run by (simp add: files_def)
qed

theorem load_documents_fixed_files_witness:
  "carthage_and_notes ''data/raw/notes.txt''
   \<and> only_carthage ''data/raw/notes.txt'' = False
   \<and> load_documents carthage_and_notes reads_all ''data/raw'' =
       load_documents only_carthage reads_all ''data/raw''
   \<and> snd (load_documents carthage_and_notes reads_all ''data/raw'') = [Loaded ''carthage.txt'' 1]
   \<and> main carthage_and_notes reads_all whole_documents list_store list_search =
       main only_carthage reads_all whole_documents list_store list_search"
proof -
  have agree: "\<forall>f\<in>set files.
      carthage_and_notes (path_join ''data/raw'' f) = only_carthage (path_join ''data/raw'' f) \<and>
      reads_all (path_join ''data/raw'' f) = reads_all (path_join ''data/raw'' f)"
    by (simp add: files_def path_join_def carthage_and_notes_def only_carthage_def)
  have extra: "carthage_and_notes ''data/raw/notes.txt''"
    by (simp add: carthage_and_notes_def)
  have no_notes: "only_carthage ''data/raw/notes.txt'' = False"
    by (simp add: only_carthage_def)
  have printed: "snd (load_documents only_carthage reads_all ''data/raw'') = [Loaded ''carthage.txt'' 1]"
    by (simp add: load_documents_def files_def path_join_def only_carthage_def reads_all_def)
  show ?thesis
    using extra no_notes printed
      load_documents_fixed_files [OF agree, of whole_documents list_store list_search]
    by simp
qed

subsection \<open>The chunker\<close>

lemma windows_bound:
  "chunk_overlap < chunk_size \<Longrightarrow> w \<in> set (windows chunk_size chunk_overlap str) \<Longrightarrow>
   length w \<le> chunk_size"
proof (induction chunk_size chunk_overlap str rule: windows.induct)
  case (1 chunk_size chunk_overlap str)
  show ?case
  proof (cases "length str \<le> chunk_size")
    case True
    with "1.prems" show ?thesis by (simp add: windows.simps [of chunk_size chunk_overlap str])
  next
    case False
    with "1.prems" have "w = take chunk_size str \<or>
        w \<in> set (windows chunk_size chunk_overlap (drop (chunk_size - chunk_overlap) str))"
      by (simp add: windows.simps [of chunk_size chunk_overlap str])
    then show ?thesis
    proof
      assume "w = take chunk_size str"
      then show ?thesis by simp
    next
      assume "w \<in> set (windows chunk_size chunk_overlap (drop (chunk_size - chunk_overlap) str))"
      with "1.IH" False "1.prems" show ?thesis by simp
    qed
  qed
qed

lemma shrink_fits:
  "shrink sep chunk_size chunk_overlap d window = [] \<or>
   length (join sep (shrink sep chunk_size chunk_overlap d window @ [d])) \<le> chunk_size"
  by (induction window) auto

lemma emit_bound:
  "window = [] \<or> length (join sep window) \<le> chunk_size \<Longrightarrow> w \<in> set (emit sep window) \<Longrightarrow>
   length w \<le> chunk_size"
  by (auto simp: emit_def split: if_splits)

lemma merge_segments_bound:
  assumes "\<forall>d\<in>set ds. length d \<le> chunk_size"
    and "window = [] \<or> length (join sep window) \<le> chunk_size"
    and "w \<in> set (merge_segments sep chunk_size chunk_overlap ds window)"
  shows "length w \<le> chunk_size"
  using assms
proof (induction ds arbitrary: window)
  case Nil
  then show ?case using emit_bound [of window sep chunk_size w] by simp
next
  case (Cons d ds)
  have d: "length d \<le> chunk_size" using Cons.prems(1) by simp
  have ds: "\<forall>d\<in>set ds. length d \<le> chunk_size" using Cons.prems(1) by simp
  show ?case
  proof (cases "chunk_size < length (join sep (window @ [d]))")
    case True
    let ?next = "shrink sep chunk_size chunk_overlap d window @ [d]"
    have fits: "?next = [] \<or> length (join sep ?next) \<le> chunk_size"
      using shrink_fits [of sep chunk_size chunk_overlap d window] d by auto
    from Cons.prems(3) True
    have "w \<in> set (emit sep window) \<or> w \<in> set (merge_segments sep chunk_size chunk_overlap ds ?next)"
      by simp
    then show ?thesis
    proof
      assume "w \<in> set (emit sep window)"
      with Cons.prems(2) show ?thesis by (rule emit_bound)
    next
      assume "w \<in> set (merge_segments sep chunk_size chunk_overlap ds ?next)"
      with Cons.IH [OF ds fits] show ?thesis by simp
    qed
  next
    case False
    then have fits: "window @ [d] = [] \<or> length (join sep (window @ [d])) \<le> chunk_size"
      by simp
    from Cons.prems(3) False
    have "w \<in> set (merge_segments sep chunk_size chunk_overlap ds (window @ [d]))" by simp
    with Cons.IH [OF ds fits] show ?thesis by simp
  qed
qed

lemma reassemble_bound:
  assumes "\<forall>p\<in>set pieces. case p of Inl segment \<Rightarrow> length segment \<le> chunk_size
                                   | Inr chunks \<Rightarrow> \<forall>c\<in>set chunks. length c \<le> chunk_size"
    and "\<forall>d\<in>set pending. length d \<le> chunk_size"
    and "w \<in> set (reassemble sep chunk_size chunk_overlap pieces pending)"
  shows "length w \<le> chunk_size"
  using assms
proof (induction sep chunk_size chunk_overlap pieces pending rule: reassemble.induct)
  case (1 sep chunk_size chunk_overlap pending)
  then show ?case
    using merge_segments_bound [of pending chunk_size "[]" sep w chunk_overlap] by simp
next
  case (2 sep chunk_size chunk_overlap segment rest pending)
  then show ?case by simp
next
  case (3 sep chunk_size chunk_overlap chunks rest pending)
  from "3.prems"(3)
  consider "w \<in> set (merge_segments sep chunk_size chunk_overlap pending [])"
    | "w \<in> set chunks"
    | "w \<in> set (reassemble sep chunk_size chunk_overlap rest [])"
    by auto
  then show ?case
  proof cases
    case 1
    with "3.prems"(2) show ?thesis
      using merge_segments_bound [of pending chunk_size "[]" sep w chunk_overlap] by simp
  next
    case 2
    with "3.prems"(1) show ?thesis by simp
  next
    case 3
    with "3.IH" "3.prems"(1) show ?thesis by simp
  qed
qed

lemma split_text_bound:
  "chunk_overlap < chunk_size \<Longrightarrow> w \<in> set (split_text seps chunk_size chunk_overlap str) \<Longrightarrow>
   length w \<le> chunk_size"
proof (induction seps arbitrary: str w)
  case Nil
  then show ?case using windows_bound by simp
next
  case (Cons sep seps)
  show ?case
  proof (cases "sep = []")
    case True
    with Cons.prems show ?thesis using windows_bound by simp
  next
    case False
    let ?pieces = "map (\<lambda>segment.
                     if chunk_size < length segment
                     then Inr (split_text seps chunk_size chunk_overlap segment)
                     else Inl segment)
                (split_on sep str)"
    have pieces: "\<forall>p\<in>set ?pieces. case p of Inl segment \<Rightarrow> length segment \<le> chunk_size
                                   | Inr chunks \<Rightarrow> \<forall>c\<in>set chunks. length c \<le> chunk_size"
      using Cons.IH [OF Cons.prems(1)] by auto
    from Cons.prems(2) False
    have "w \<in> set (reassemble sep chunk_size chunk_overlap ?pieces [])" by simp
    with pieces show ?thesis
      using reassemble_bound [of ?pieces chunk_size "[]" w sep chunk_overlap] by simp
  qed
qed

text \<open>
  C7: for every list of documents and every configuration with \<open>chunk_size > 0\<close> and
  \<open>0 \<le> chunk_overlap < chunk_size\<close>, the chunking step succeeds and every chunk it produces
  has at most \<open>chunk_size\<close> characters. This holds for the chunks of any one text as well.
\<close>

theorem chunks_within_chunk_size:
  assumes "0 < chunk_size" and "0 \<le> chunk_overlap" and "chunk_overlap < chunk_size"
  shows "snd (create_chunks recursive_splitter docs chunk_size chunk_overlap) =
           Inr (concat (map (chunk_document (nat chunk_size) (nat chunk_overlap)) docs))
         \<and> (\<forall>c\<in>set (concat (map (chunk_document (nat chunk_size) (nat chunk_overlap)) docs)).
              int (length (page_content c)) \<le> chunk_size)
         \<and> (\<forall>w\<in>set (chunk document_text (nat chunk_size) (nat chunk_overlap)).
              int (length w) \<le> chunk_size)"
proof -
  have cfg: "nat chunk_overlap < nat chunk_size" using assms by simp
  have one: "int (length w) \<le> chunk_size"
    if "w \<in> set (chunk str (nat chunk_size) (nat chunk_overlap))" for w str
  proof -
    have "length w \<le> nat chunk_size"
      using that split_text_bound [OF cfg] by (simp add: chunk_def)
    then show ?thesis using assms(1) by simp
  qed
  have run: "snd (create_chunks recursive_splitter docs chunk_size chunk_overlap) =
           Inr (concat (map (chunk_document (nat chunk_size) (nat chunk_overlap)) docs))"
    using assms by (simp add: create_chunks_def recursive_splitter_def)
  have every: "\<forall>c\<in>set (concat (map (chunk_document (nat chunk_size) (nat chunk_overlap)) docs)).
              int (length (page_content c)) \<le> chunk_size"
    using one by (auto simp: chunk_document_def)
  show ?thesis using run every one by blast
qed

theorem chunks_within_chunk_size_witness:
  "(0::int) < 20 \<and> (0::int) \<le> 5 \<and> (5::int) < 20
   \<and> map page_content
        (case snd (create_chunks recursive_splitter [carthage_guide] 20 5) of
           Inr chunks \<Rightarrow> chunks | Inl e \<Rightarrow> []) =
       [''Carthage est une'', ''une cite'', ''Elle fut fondee par'', ''par les Pheniciens.'']
   \<and> list_all (\<lambda>w. length w \<le> 20)
        [''Carthage est une'', ''une cite'', ''Elle fut fondee par'', ''par les Pheniciens.'']
   \<and> length (page_content carthage_guide) = 58"
proof -
  have cfg: "(0::int) < 20" "(0::int) \<le> 5" "(5::int) < 20" by simp_all
  have chunks: "chunk ''Carthage est une cite. Elle fut fondee par les Pheniciens.'' 20 5 =
      [''Carthage est une'', ''une cite'', ''Elle fut fondee par'', ''par les Pheniciens.'']"
    by code_simp
  have run: "snd (create_chunks recursive_splitter [carthage_guide] 20 5) =
      Inr (concat (map (chunk_document (nat 20) (nat 5)) [carthage_guide]))"
    using chunks_within_chunk_size [OF cfg, of "[carthage_guide]"] by blast
  have texts: "map page_content (concat (map (chunk_document (nat 20) (nat 5)) [carthage_guide])) =
      [''Carthage est une'', ''une cite'', ''Elle fut fondee par'', ''par les Pheniciens.'']"
    by (simp add: chunk_document_def carthage_guide_def chunks comp_def)
  show ?thesis
    using cfg run texts by (simp add: carthage_guide_def)
qed

end
